theory Spec2Isabelle
  imports
    Complex_Main
    "HOL-Library.AList"
    "HOL-Library.Char_ord"
    "HOL-Library.List_Lexorder"
    "HOL-Library.Product_Lexorder"
begin

section \<open>Enumerations and the job record\<close>

text \<open>
  \<^verbatim>\<open>services/enhanced_queue_manager.py\<close>: \<^verbatim>\<open>QueuePriority\<close> and \<^verbatim>\<open>JobStatus\<close> are plain
  \<^verbatim>\<open>Enum\<close> classes. A member has a name and a value; \<^verbatim>\<open>str(member)\<close> is
  \<^verbatim>\<open>ClassName.MEMBER\<close>, and \<^verbatim>\<open>Class(v)\<close> looks a member up by value and raises
  \<^verbatim>\<open>ValueError\<close> when no member has the value \<^verbatim>\<open>v\<close>.
\<close>

datatype QueuePriority = LOW | NORMAL | HIGH | URGENT

datatype JobStatus = PENDING | QUEUED | PROCESSING | COMPLETED | FAILED | CANCELLED | EXPIRED

fun priority_value :: "QueuePriority \<Rightarrow> int" where
  "priority_value LOW = 0"
| "priority_value NORMAL = 1"
| "priority_value HIGH = 2"
| "priority_value URGENT = 3"

fun priority_name :: "QueuePriority \<Rightarrow> string" where
  "priority_name LOW = ''LOW''"
| "priority_name NORMAL = ''NORMAL''"
| "priority_name HIGH = ''HIGH''"
| "priority_name URGENT = ''URGENT''"

fun status_value :: "JobStatus \<Rightarrow> string" where
  "status_value PENDING = ''pending''"
| "status_value QUEUED = ''queued''"
| "status_value PROCESSING = ''processing''"
| "status_value COMPLETED = ''completed''"
| "status_value FAILED = ''failed''"
| "status_value CANCELLED = ''cancelled''"
| "status_value EXPIRED = ''expired''"

fun status_name :: "JobStatus \<Rightarrow> string" where
  "status_name PENDING = ''PENDING''"
| "status_name QUEUED = ''QUEUED''"
| "status_name PROCESSING = ''PROCESSING''"
| "status_name COMPLETED = ''COMPLETED''"
| "status_name FAILED = ''FAILED''"
| "status_name CANCELLED = ''CANCELLED''"
| "status_name EXPIRED = ''EXPIRED''"

definition str_priority :: "QueuePriority \<Rightarrow> string" where
  "str_priority p = ''QueuePriority.'' @ priority_name p"

definition str_status :: "JobStatus \<Rightarrow> string" where
  "str_status s = ''JobStatus.'' @ status_name s"

text \<open>
  JSON documents. A text that \<^verbatim>\<open>json.dumps\<close> wrote is kept as the document it denotes
  (\<^verbatim>\<open>json.loads\<close> of it gives the document back); floats are exact rationals.
\<close>

datatype json =
    JNull
  | JBool bool
  | JInt int
  | JFloat rat
  | JStr string
  | JArr "json list"
  | JObj "(string \<times> json) list"

text \<open>Python's truth value of a decoded JSON value (\<^verbatim>\<open>if data["scheduled_at"]:\<close>).\<close>

fun truthy :: "json \<Rightarrow> bool" where
  "truthy JNull = False"
| "truthy (JBool b) = b"
| "truthy (JInt n) = (n \<noteq> 0)"
| "truthy (JFloat r) = (r \<noteq> 0)"
| "truthy (JStr s) = (s \<noteq> [])"
| "truthy (JArr xs) = (xs \<noteq> [])"
| "truthy (JObj kvs) = (kvs \<noteq> [])"

text \<open>
  The standard library's \<^verbatim>\<open>datetime\<close> is not part of the repository: the model takes the
  type of datetimes and the library functions the code calls as a parameter, so that every
  general theorem holds whatever these functions do.
  \<^item> \<open>dt_str\<close> is \<^verbatim>\<open>str(d)\<close>, \<open>dt_isoformat\<close> is \<^verbatim>\<open>d.isoformat()\<close>;
  \<^item> \<open>dt_fromisoformat\<close> is \<^verbatim>\<open>datetime.fromisoformat\<close>, \<open>None\<close> for its \<^verbatim>\<open>ValueError\<close>;
  \<^item> \<open>dt_strftime d fmt\<close> is \<^verbatim>\<open>d.strftime(fmt)\<close>;
  \<^item> \<open>dt_add_seconds d s\<close> is \<^verbatim>\<open>d + timedelta(seconds=s)\<close>.
\<close>

record 'd pylib =
  dt_str :: "'d \<Rightarrow> string"
  dt_isoformat :: "'d \<Rightarrow> string"
  dt_fromisoformat :: "string \<Rightarrow> 'd option"
  dt_strftime :: "'d \<Rightarrow> string \<Rightarrow> string"
  dt_add_seconds :: "'d \<Rightarrow> rat \<Rightarrow> 'd"

text \<open>
  What one call reads from its environment: \<^verbatim>\<open>datetime.now()\<close>, \<^verbatim>\<open>time.time()\<close> and the
  identifier \<^verbatim>\<open>str(uuid.uuid4())\<close> draws. All clock readings of one call are the same
  instant.
\<close>

record 'd env =
  datetime_now :: 'd
  time_time :: rat
  uuid4 :: string

text \<open>The dataclass \<^verbatim>\<open>QueueJob\<close>.\<close>

record 'd QueueJob =
  job_id :: string
  user_id :: string
  job_type :: string
  payload :: json
  priority :: QueuePriority
  status :: JobStatus
  created_at :: 'd
  scheduled_at :: "'d option"
  started_at :: "'d option"
  completed_at :: "'d option"
  retry_count :: int
  max_retries :: int
  timeout_seconds :: int
  error_message :: "string option"
  progress :: rat
  metadata :: json

section \<open>The Redis store\<close>

text \<open>
  The code keeps every key family under one Redis type, so the store is one table per use:
  integer counters (\<^verbatim>\<open>INCR\<close>), JSON texts written by \<^verbatim>\<open>SET\<close>, hashes, lists of job ids,
  sorted sets of job ids with scores, sets of job ids, and the dead-letter list (a list of
  JSON texts under the fixed key \<^verbatim>\<open>dead_letter_queue\<close>). A table is an association list
  in insertion order. \<^verbatim>\<open>EXPIRE\<close> records the deadline in \<open>ttls\<close>; no operation of the
  model lets a key expire, so the model covers call sequences within the time-to-live.
\<close>

datatype rtext = Text string | Doc json

record redis_db =
  counters :: "(string \<times> int) list"
  documents :: "(string \<times> json) list"
  hashes :: "(string \<times> (string \<times> rtext) list) list"
  lists :: "(string \<times> string list) list"
  zsets :: "(string \<times> (string \<times> rat) list) list"
  sets :: "(string \<times> string list) list"
  dead_letters :: "json list"
  ttls :: "(string \<times> rat) list"

definition empty_db :: redis_db where
  "empty_db = \<lparr>counters = [], documents = [], hashes = [], lists = [], zsets = [],
     sets = [], dead_letters = [], ttls = []\<rparr>"

definition table_get :: "(string \<times> 'a list) list \<Rightarrow> string \<Rightarrow> 'a list" where
  "table_get t k = (case map_of t k of None \<Rightarrow> [] | Some xs \<Rightarrow> xs)"

definition redis_get :: "redis_db \<Rightarrow> string \<Rightarrow> int option" where
  "redis_get db k = map_of (counters db) k"

definition incr :: "string \<Rightarrow> redis_db \<Rightarrow> redis_db" where
  "incr k db =
     db\<lparr>counters := AList.update k
        ((case map_of (counters db) k of None \<Rightarrow> 0 | Some n \<Rightarrow> n) + 1) (counters db)\<rparr>"

definition expire :: "string \<Rightarrow> rat \<Rightarrow> rat \<Rightarrow> redis_db \<Rightarrow> redis_db" where
  "expire k seconds now db = db\<lparr>ttls := AList.update k (now + seconds) (ttls db)\<rparr>"

definition redis_set :: "string \<Rightarrow> json \<Rightarrow> redis_db \<Rightarrow> redis_db" where
  "redis_set k v db = db\<lparr>documents := AList.update k v (documents db)\<rparr>"

definition hget :: "redis_db \<Rightarrow> string \<Rightarrow> string \<Rightarrow> rtext option" where
  "hget db k f = map_of (table_get (hashes db) k) f"

fun hset_fields :: "(string \<times> rtext) list \<Rightarrow> (string \<times> rtext) list \<Rightarrow> (string \<times> rtext) list" where
  "hset_fields [] h = h"
| "hset_fields ((f, v) # m) h = hset_fields m (AList.update f v h)"

definition hset :: "string \<Rightarrow> (string \<times> rtext) list \<Rightarrow> redis_db \<Rightarrow> redis_db" where
  "hset k m db =
     db\<lparr>hashes := AList.update k (hset_fields m (table_get (hashes db) k)) (hashes db)\<rparr>"

definition llen :: "redis_db \<Rightarrow> string \<Rightarrow> nat" where
  "llen db k = length (table_get (lists db) k)"

definition lpush :: "string \<Rightarrow> string \<Rightarrow> redis_db \<Rightarrow> redis_db" where
  "lpush k v db = db\<lparr>lists := AList.update k (v # table_get (lists db) k) (lists db)\<rparr>"

text \<open>
  \<^verbatim>\<open>BRPOP\<close> takes the element at the tail of the list. With no other client writing while
  the call waits, an empty list stays empty until the timeout and the call returns \<open>None\<close>.
\<close>

definition brpop :: "string \<Rightarrow> redis_db \<Rightarrow> string option \<times> redis_db" where
  "brpop k db =
     (case table_get (lists db) k of
        [] \<Rightarrow> (None, db)
      | x # xs \<Rightarrow> (Some (last (x # xs)), db\<lparr>lists := AList.update k (butlast (x # xs)) (lists db)\<rparr>))"

definition zcard :: "redis_db \<Rightarrow> string \<Rightarrow> nat" where
  "zcard db k = length (table_get (zsets db) k)"

definition zadd :: "string \<Rightarrow> string \<Rightarrow> rat \<Rightarrow> redis_db \<Rightarrow> redis_db" where
  "zadd k member score db =
     db\<lparr>zsets := AList.update k (AList.update member score (table_get (zsets db) k)) (zsets db)\<rparr>"

definition zrem :: "string \<Rightarrow> string \<Rightarrow> redis_db \<Rightarrow> redis_db" where
  "zrem k member db =
     db\<lparr>zsets := AList.update k (AList.delete member (table_get (zsets db) k)) (zsets db)\<rparr>"

text \<open>Members with \<open>lo \<le> score \<le> hi\<close>, by ascending score, then by member.\<close>

definition zrangebyscore :: "redis_db \<Rightarrow> string \<Rightarrow> rat \<Rightarrow> rat \<Rightarrow> string list" where
  "zrangebyscore db k lo hi =
     map fst (sort_key (\<lambda>ms. (snd ms, fst ms))
       (filter (\<lambda>ms. lo \<le> snd ms \<and> snd ms \<le> hi) (table_get (zsets db) k)))"

definition sadd :: "string \<Rightarrow> string \<Rightarrow> redis_db \<Rightarrow> redis_db" where
  "sadd k member db =
     db\<lparr>sets := AList.update k
        (if member \<in> set (table_get (sets db) k) then table_get (sets db) k
         else table_get (sets db) k @ [member]) (sets db)\<rparr>"

definition srem :: "string \<Rightarrow> string \<Rightarrow> redis_db \<Rightarrow> redis_db" where
  "srem k member db =
     db\<lparr>sets := AList.update k (removeAll member (table_get (sets db) k)) (sets db)\<rparr>"

text \<open>
  \<^verbatim>\<open>KEYS pattern\<close>: the names of all keys that hold a value and match the glob pattern.
  \<^verbatim>\<open>*\<close> stands for any run of characters, \<^verbatim>\<open>?\<close> for one character and a backslash
  makes the next character literal; character classes in brackets are not modelled.
\<close>

fun glob :: "string \<Rightarrow> string \<Rightarrow> bool" where
  "glob [] s = (s = [])"
| "glob (c # p) s =
     (if c = CHR ''*'' then
        (glob p s \<or> (case s of [] \<Rightarrow> False | x # s' \<Rightarrow> glob (c # p) s'))
      else if c = CHR 0x5C \<and> p \<noteq> [] then
        (case s of [] \<Rightarrow> False | x # s' \<Rightarrow> x = hd p \<and> glob (tl p) s')
      else
        (case s of [] \<Rightarrow> False | x # s' \<Rightarrow> (c = CHR ''?'' \<or> c = x) \<and> glob p s'))"

definition all_keys :: "redis_db \<Rightarrow> string list" where
  "all_keys db = remdups
     (map fst (counters db) @ map fst (documents db) @
      map fst (filter (\<lambda>kv. snd kv \<noteq> []) (hashes db)) @
      map fst (filter (\<lambda>kv. snd kv \<noteq> []) (lists db)) @
      map fst (filter (\<lambda>kv. snd kv \<noteq> []) (zsets db)) @
      map fst (filter (\<lambda>kv. snd kv \<noteq> []) (sets db)) @
      (if dead_letters db = [] then [] else [''dead_letter_queue'']))"

definition keys :: "redis_db \<Rightarrow> string \<Rightarrow> string list" where
  "keys db pattern = filter (glob pattern) (all_keys db)"

section \<open>RateLimiter\<close>

record rate_limits =
  requests_per_minute :: int
  requests_per_hour :: int
  requests_per_day :: int
  concurrent_jobs :: int

definition default_limits :: rate_limits where
  "default_limits = \<lparr>requests_per_minute = 10, requests_per_hour = 100,
     requests_per_day = 500, concurrent_jobs = 3\<rparr>"

definition rate_key :: "'d pylib \<Rightarrow> 'd \<Rightarrow> string \<Rightarrow> string \<Rightarrow> string \<Rightarrow> string" where
  "rate_key L now window uid fmt =
     ''rate_limit:'' @ window @ '':'' @ uid @ '':'' @ dt_strftime L now fmt"

definition minute_key :: "'d pylib \<Rightarrow> 'd \<Rightarrow> string \<Rightarrow> string" where
  "minute_key L now uid = rate_key L now ''minute'' uid ''%Y-%m-%d:%H:%M''"

definition hour_key :: "'d pylib \<Rightarrow> 'd \<Rightarrow> string \<Rightarrow> string" where
  "hour_key L now uid = rate_key L now ''hour'' uid ''%Y-%m-%d:%H''"

definition day_key :: "'d pylib \<Rightarrow> 'd \<Rightarrow> string \<Rightarrow> string" where
  "day_key L now uid = rate_key L now ''day'' uid ''%Y-%m-%d''"

text \<open>\<^verbatim>\<open>count and int(count) >= limit\<close>: a missing counter is \<^verbatim>\<open>None\<close>, which is false.\<close>

definition reached :: "redis_db \<Rightarrow> string \<Rightarrow> int \<Rightarrow> bool" where
  "reached db k limit = (case redis_get db k of None \<Rightarrow> False | Some n \<Rightarrow> n \<ge> limit)"

definition get_concurrent_jobs :: "redis_db \<Rightarrow> string \<Rightarrow> int" where
  "get_concurrent_jobs db uid =
     int (length (keys db (''job:*:user:'' @ uid @ '':status:processing'')))"

definition check_rate_limit ::
  "'d pylib \<Rightarrow> rate_limits \<Rightarrow> 'd env \<Rightarrow> redis_db \<Rightarrow> string \<Rightarrow> bool \<times> string" where
  "check_rate_limit L lims e db uid =
     (if reached db (minute_key L (datetime_now e) uid) (requests_per_minute lims) then
        (False, ''Rate limit exceeded: too many requests per minute'')
      else if reached db (hour_key L (datetime_now e) uid) (requests_per_hour lims) then
        (False, ''Rate limit exceeded: too many requests per hour'')
      else if reached db (day_key L (datetime_now e) uid) (requests_per_day lims) then
        (False, ''Rate limit exceeded: too many requests per day'')
      else if get_concurrent_jobs db uid \<ge> concurrent_jobs lims then
        (False, ''Rate limit exceeded: too many concurrent jobs'')
      else (True, ''OK''))"

definition increment_rate_limit :: "'d pylib \<Rightarrow> 'd env \<Rightarrow> string \<Rightarrow> redis_db \<Rightarrow> redis_db" where
  "increment_rate_limit L e uid db =
     (let db1 = incr (minute_key L (datetime_now e) uid) db;
          db2 = expire (minute_key L (datetime_now e) uid) 60 (time_time e) db1;
          db3 = incr (hour_key L (datetime_now e) uid) db2;
          db4 = expire (hour_key L (datetime_now e) uid) 3600 (time_time e) db3;
          db5 = incr (day_key L (datetime_now e) uid) db4
      in expire (day_key L (datetime_now e) uid) 86400 (time_time e) db5)"

section \<open>DeadLetterQueue\<close>

text \<open>\<^verbatim>\<open>LPUSH\<close> of the entry, then \<^verbatim>\<open>LTRIM 0 999\<close>.\<close>

definition add_failed_job ::
  "'d pylib \<Rightarrow> 'd env \<Rightarrow> 'd QueueJob \<Rightarrow> string \<Rightarrow> redis_db \<Rightarrow> redis_db" where
  "add_failed_job L e job err db =
     db\<lparr>dead_letters := take 1000
        (JObj [(''job_id'', JStr (job_id job)),
               (''user_id'', JStr (user_id job)),
               (''job_type'', JStr (job_type job)),
               (''failed_at'', JStr (dt_isoformat L (datetime_now e))),
               (''error'', JStr err),
               (''retry_count'', JInt (retry_count job)),
               (''original_payload'', payload job)] # dead_letters db)\<rparr>"

section \<open>EnhancedQueueManager\<close>

record queue_stats =
  jobs_queued :: int
  jobs_processed :: int
  jobs_failed :: int
  queue_overflows :: int

record manager =
  redis :: redis_db
  max_queue_size :: int
  limits :: rate_limits
  stats :: queue_stats

definition new_manager :: "redis_db \<Rightarrow> int \<Rightarrow> manager" where
  "new_manager db n = \<lparr>redis = db, max_queue_size = n, limits = default_limits,
     stats = \<lparr>jobs_queued = 0, jobs_processed = 0, jobs_failed = 0, queue_overflows = 0\<rparr>\<rparr>"

fun queue_keys :: "QueuePriority \<Rightarrow> string" where
  "queue_keys URGENT = ''queue:urgent''"
| "queue_keys HIGH = ''queue:high''"
| "queue_keys NORMAL = ''queue:normal''"
| "queue_keys LOW = ''queue:low''"

definition delayed_key :: "QueuePriority \<Rightarrow> string" where
  "delayed_key p = queue_keys p @ '':delayed''"

definition get_total_queue_size :: "redis_db \<Rightarrow> int" where
  "get_total_queue_size db =
     int (sum_list (map (\<lambda>p. llen db (queue_keys p) + zcard db (delayed_key p))
       [URGENT, HIGH, NORMAL, LOW]))"

text \<open>
  \<^verbatim>\<open>json.dumps(asdict(job), default=str)\<close>: \<^verbatim>\<open>asdict\<close> leaves the enum members and the
  datetimes as they are, the encoder cannot write them and calls \<^verbatim>\<open>default\<close>, which is
  \<^verbatim>\<open>str\<close>.
\<close>

definition dumps_optional_datetime :: "'d pylib \<Rightarrow> 'd option \<Rightarrow> json" where
  "dumps_optional_datetime L d = (case d of None \<Rightarrow> JNull | Some t \<Rightarrow> JStr (dt_str L t))"

definition dumps_job :: "'d pylib \<Rightarrow> 'd QueueJob \<Rightarrow> json" where
  "dumps_job L job = JObj
     [(''job_id'', JStr (job_id job)),
      (''user_id'', JStr (user_id job)),
      (''job_type'', JStr (job_type job)),
      (''payload'', payload job),
      (''priority'', JStr (str_priority (priority job))),
      (''status'', JStr (str_status (status job))),
      (''created_at'', JStr (dt_str L (created_at job))),
      (''scheduled_at'', dumps_optional_datetime L (scheduled_at job)),
      (''started_at'', dumps_optional_datetime L (started_at job)),
      (''completed_at'', dumps_optional_datetime L (completed_at job)),
      (''retry_count'', JInt (retry_count job)),
      (''max_retries'', JInt (max_retries job)),
      (''timeout_seconds'', JInt (timeout_seconds job)),
      (''error_message'', (case error_message job of None \<Rightarrow> JNull | Some s \<Rightarrow> JStr s)),
      (''progress'', JFloat (progress job)),
      (''metadata'', metadata job)]"

definition enqueue_job ::
  "'d pylib \<Rightarrow> 'd env \<Rightarrow> string \<Rightarrow> string \<Rightarrow> json \<Rightarrow> QueuePriority \<Rightarrow> rat \<Rightarrow> manager
     \<Rightarrow> (bool \<times> string \<times> string option) \<times> manager" where
  "enqueue_job L e uid jtype pl prio delay_seconds m =
     (let (allowed, reason) = check_rate_limit L (limits m) e (redis m) uid in
      if \<not> allowed then ((False, reason, None), m)
      else if get_total_queue_size (redis m) \<ge> max_queue_size m then
        ((False, ''Queue is full, please try again later'', None),
         m\<lparr>stats := (stats m)\<lparr>queue_overflows := queue_overflows (stats m) + 1\<rparr>\<rparr>)
      else
        let jid = uuid4 e;
            now = datetime_now e;
            job = \<lparr>job_id = jid, user_id = uid, job_type = jtype, payload = pl,
                   priority = prio, status = QUEUED, created_at = now,
                   scheduled_at =
                     (if delay_seconds > 0 then Some (dt_add_seconds L now delay_seconds) else None),
                   started_at = None, completed_at = None, retry_count = 0, max_retries = 3,
                   timeout_seconds = 300, error_message = None, progress = 0,
                   metadata = JObj []\<rparr>;
            db1 = hset (''job:'' @ jid)
                    [(''data'', Doc (dumps_job L job)), (''user_id'', Text uid),
                     (''status'', Text (status_value (status job)))] (redis m);
            db2 = expire (''job:'' @ jid) 86400 (time_time e) db1;
            db3 = (if delay_seconds > 0
                   then zadd (delayed_key prio) jid (time_time e + delay_seconds) db2
                   else lpush (queue_keys prio) jid db2);
            db4 = increment_rate_limit L e uid db3;
            db5 = sadd (''user:'' @ uid @ '':jobs'') jid db4;
            db6 = expire (''user:'' @ uid @ '':jobs'') 86400 (time_time e) db5
        in ((True, ''Job queued successfully'', Some jid),
            m\<lparr>redis := db6, stats := (stats m)\<lparr>jobs_queued := jobs_queued (stats m) + 1\<rparr>\<rparr>))"

text \<open>
  Exceptions that leave a function of the model. \<open>KeyError\<close> is the one \<^verbatim>\<open>_get_job_data\<close>
  does not catch; \<open>ValueError\<close> is raised by \<^verbatim>\<open>min\<close> and \<^verbatim>\<open>max\<close> of an empty sequence in
  the model cache. \<open>IllTyped\<close> is not a Python exception: \<^verbatim>\<open>QueueJob(**data)\<close> checks no
  types, and the model stops where a stored field does not have the type the dataclass
  declares, since the typed record cannot hold it.
\<close>

datatype error = KeyError string | ValueError string | IllTyped string

text \<open>
  The steps of \<^verbatim>\<open>_get_job_data\<close> inside its \<^verbatim>\<open>try\<close>: \<open>Raise\<close> is an exception the
  \<^verbatim>\<open>except\<close> clause does not catch, \<open>Caught\<close> one it catches (\<^verbatim>\<open>JSONDecodeError\<close>,
  \<^verbatim>\<open>ValueError\<close>, \<^verbatim>\<open>TypeError\<close>: the function logs and returns \<^verbatim>\<open>None\<close>).
\<close>

datatype 'a step = Raise error | Caught | Ok 'a

definition bind :: "'a step \<Rightarrow> ('a \<Rightarrow> 'b step) \<Rightarrow> 'b step" where
  "bind x f = (case x of Raise e \<Rightarrow> Raise e | Caught \<Rightarrow> Caught | Ok a \<Rightarrow> f a)"

definition item :: "(string \<times> json) list \<Rightarrow> string \<Rightarrow> json step" where
  "item data k = (case map_of data k of None \<Rightarrow> Raise (KeyError k) | Some v \<Rightarrow> Ok v)"

text \<open>\<^verbatim>\<open>datetime.fromisoformat(v)\<close>: \<^verbatim>\<open>TypeError\<close> unless \<^verbatim>\<open>v\<close> is a string.\<close>

definition fromisoformat :: "'d pylib \<Rightarrow> json \<Rightarrow> 'd step" where
  "fromisoformat L v =
     (case v of
        JStr s \<Rightarrow> (case dt_fromisoformat L s of None \<Rightarrow> Caught | Some d \<Rightarrow> Ok d)
      | _ \<Rightarrow> Caught)"

text \<open>
  \<^verbatim>\<open>if data[k]: data[k] = datetime.fromisoformat(data[k])\<close>. A false value stays as it
  is; it fits the field's type when it is \<^verbatim>\<open>None\<close>.
\<close>

definition optional_datetime :: "'d pylib \<Rightarrow> (string \<times> json) list \<Rightarrow> string \<Rightarrow> (json + 'd) step" where
  "optional_datetime L data k =
     bind (item data k) (\<lambda>v.
       if truthy v then bind (fromisoformat L v) (\<lambda>d. Ok (Inr d)) else Ok (Inl v))"

text \<open>
  Lookup of an enum member by value: Python compares numbers by value, so \<^verbatim>\<open>1.0\<close> and
  \<^verbatim>\<open>True\<close> find the member with value \<^verbatim>\<open>1\<close>.
\<close>

definition priority_of_int :: "int \<Rightarrow> QueuePriority option" where
  "priority_of_int n =
     (if n = 0 then Some LOW else if n = 1 then Some NORMAL
      else if n = 2 then Some HIGH else if n = 3 then Some URGENT else None)"

definition priority_of_value :: "json \<Rightarrow> QueuePriority step" where
  "priority_of_value v =
     (case (case v of
              JInt n \<Rightarrow> priority_of_int n
            | JFloat r \<Rightarrow> (if r = of_int \<lfloor>r\<rfloor> then priority_of_int \<lfloor>r\<rfloor> else None)
            | JBool b \<Rightarrow> priority_of_int (if b then 1 else 0)
            | _ \<Rightarrow> None)
      of None \<Rightarrow> Caught | Some p \<Rightarrow> Ok p)"

definition status_of_string :: "string \<Rightarrow> JobStatus option" where
  "status_of_string s =
     (if s = ''pending'' then Some PENDING else if s = ''queued'' then Some QUEUED
      else if s = ''processing'' then Some PROCESSING
      else if s = ''completed'' then Some COMPLETED
      else if s = ''failed'' then Some FAILED
      else if s = ''cancelled'' then Some CANCELLED
      else if s = ''expired'' then Some EXPIRED else None)"

definition status_of_value :: "json \<Rightarrow> JobStatus step" where
  "status_of_value v =
     (case v of
        JStr s \<Rightarrow> (case status_of_string s of None \<Rightarrow> Caught | Some st \<Rightarrow> Ok st)
      | _ \<Rightarrow> Caught)"

text \<open>
  \<^verbatim>\<open>QueueJob(**data)\<close>: \<^verbatim>\<open>TypeError\<close> for a key that is no field and for a missing field
  without a default. Then the typed record is built, or the model stops at \<open>IllTyped\<close>.
\<close>

definition field_names :: "string list" where
  "field_names = [''job_id'', ''user_id'', ''job_type'', ''payload'', ''priority'', ''status'',
     ''created_at'', ''scheduled_at'', ''started_at'', ''completed_at'', ''retry_count'',
     ''max_retries'', ''timeout_seconds'', ''error_message'', ''progress'', ''metadata'']"

definition required :: "(string \<times> json) list \<Rightarrow> string \<Rightarrow> json step" where
  "required data k = (case map_of data k of None \<Rightarrow> Caught | Some v \<Rightarrow> Ok v)"

definition typed_str :: "string \<Rightarrow> json \<Rightarrow> string step" where
  "typed_str k v = (case v of JStr s \<Rightarrow> Ok s | _ \<Rightarrow> Raise (IllTyped k))"

definition typed_int :: "string \<Rightarrow> int \<Rightarrow> json option \<Rightarrow> int step" where
  "typed_int k dflt v =
     (case v of None \<Rightarrow> Ok dflt | Some (JInt n) \<Rightarrow> Ok n | Some _ \<Rightarrow> Raise (IllTyped k))"

definition typed_optional_datetime :: "string \<Rightarrow> json + 'd \<Rightarrow> 'd option step" where
  "typed_optional_datetime k v =
     (case v of Inr d \<Rightarrow> Ok (Some d) | Inl JNull \<Rightarrow> Ok None | Inl _ \<Rightarrow> Raise (IllTyped k))"

definition typed_error_message :: "json option \<Rightarrow> string option step" where
  "typed_error_message v =
     (case v of None \<Rightarrow> Ok None | Some JNull \<Rightarrow> Ok None | Some (JStr s) \<Rightarrow> Ok (Some s)
      | Some _ \<Rightarrow> Raise (IllTyped ''error_message''))"

definition typed_progress :: "json option \<Rightarrow> rat step" where
  "typed_progress v =
     (case v of None \<Rightarrow> Ok 0 | Some (JFloat r) \<Rightarrow> Ok r | Some (JInt n) \<Rightarrow> Ok (of_int n)
      | Some _ \<Rightarrow> Raise (IllTyped ''progress''))"

definition typed_metadata :: "json option \<Rightarrow> json" where
  "typed_metadata v = (case v of None \<Rightarrow> JObj [] | Some JNull \<Rightarrow> JObj [] | Some j \<Rightarrow> j)"

definition construct ::
  "(string \<times> json) list \<Rightarrow> 'd \<Rightarrow> json + 'd \<Rightarrow> json + 'd \<Rightarrow> json + 'd \<Rightarrow> QueuePriority \<Rightarrow> JobStatus
     \<Rightarrow> 'd QueueJob step" where
  "construct data created scheduled started completed prio st =
     (if \<not> list_all (\<lambda>k. k \<in> set field_names) (map fst data) then Caught
      else
        bind (required data ''job_id'') (\<lambda>v_job_id.
        bind (required data ''user_id'') (\<lambda>v_user_id.
        bind (required data ''job_type'') (\<lambda>v_job_type.
        bind (required data ''payload'') (\<lambda>v_payload.
        bind (typed_str ''job_id'' v_job_id) (\<lambda>jid.
        bind (typed_str ''user_id'' v_user_id) (\<lambda>uid.
        bind (typed_str ''job_type'' v_job_type) (\<lambda>jtype.
        bind (typed_optional_datetime ''scheduled_at'' scheduled) (\<lambda>sched.
        bind (typed_optional_datetime ''started_at'' started) (\<lambda>start.
        bind (typed_optional_datetime ''completed_at'' completed) (\<lambda>compl.
        bind (typed_int ''retry_count'' 0 (map_of data ''retry_count'')) (\<lambda>retries.
        bind (typed_int ''max_retries'' 3 (map_of data ''max_retries'')) (\<lambda>max_r.
        bind (typed_int ''timeout_seconds'' 300 (map_of data ''timeout_seconds'')) (\<lambda>tmo.
        bind (typed_error_message (map_of data ''error_message'')) (\<lambda>msg.
        bind (typed_progress (map_of data ''progress'')) (\<lambda>prog.
          Ok \<lparr>job_id = jid, user_id = uid, job_type = jtype, payload = v_payload,
              priority = prio, status = st, created_at = created, scheduled_at = sched,
              started_at = start, completed_at = compl, retry_count = retries,
              max_retries = max_r, timeout_seconds = tmo, error_message = msg,
              progress = prog,
              metadata = typed_metadata (map_of data ''metadata'')\<rparr>))))))))))))))))"

text \<open>The body of the \<^verbatim>\<open>try\<close> of \<^verbatim>\<open>_get_job_data\<close>, from the decoded document on.\<close>

definition parse_job :: "'d pylib \<Rightarrow> json \<Rightarrow> 'd QueueJob step" where
  "parse_job L doc =
     (case doc of
        JObj data \<Rightarrow>
          bind (item data ''created_at'') (\<lambda>v_created.
          bind (fromisoformat L v_created) (\<lambda>created.
          bind (optional_datetime L data ''scheduled_at'') (\<lambda>scheduled.
          bind (optional_datetime L data ''started_at'') (\<lambda>started.
          bind (optional_datetime L data ''completed_at'') (\<lambda>completed.
          bind (item data ''priority'') (\<lambda>v_priority.
          bind (priority_of_value v_priority) (\<lambda>prio.
          bind (item data ''status'') (\<lambda>v_status.
          bind (status_of_value v_status) (\<lambda>st.
            construct data created scheduled started completed prio st)))))))))
      | _ \<Rightarrow> Caught)"

text \<open>
  \<^verbatim>\<open>_get_job_data\<close>: the \<^verbatim>\<open>data\<close> field of the hash \<^verbatim>\<open>job:<id>\<close>. A missing or empty field
  gives \<^verbatim>\<open>None\<close>; a text that is no JSON document raises \<^verbatim>\<open>JSONDecodeError\<close>, which is
  caught.
\<close>

definition get_job_data :: "'d pylib \<Rightarrow> redis_db \<Rightarrow> string \<Rightarrow> error + 'd QueueJob option" where
  "get_job_data L db jid =
     (case hget db (''job:'' @ jid) ''data'' of
        None \<Rightarrow> Inr None
      | Some (Text s) \<Rightarrow> Inr None
      | Some (Doc doc) \<Rightarrow>
          (case parse_job L doc of
             Raise e \<Rightarrow> Inl e
           | Caught \<Rightarrow> Inr None
           | Ok job \<Rightarrow> Inr (Some job)))"

text \<open>\<^verbatim>\<open>_update_job_status(job_id, status, error=None)\<close>; \<^verbatim>\<open>if error:\<close> is false for \<^verbatim>\<open>""\<close>.\<close>

definition update_job_status ::
  "'d pylib \<Rightarrow> 'd env \<Rightarrow> string \<Rightarrow> JobStatus \<Rightarrow> string option \<Rightarrow> redis_db \<Rightarrow> (error + unit) \<times> redis_db" where
  "update_job_status L e jid st err db =
     (case get_job_data L db jid of
        Inl x \<Rightarrow> (Inl x, db)
      | Inr None \<Rightarrow> (Inr (), db)
      | Inr (Some job_data) \<Rightarrow>
          (let j1 = job_data\<lparr>status := st\<rparr>;
               j2 = (if st = PROCESSING then j1\<lparr>started_at := Some (datetime_now e)\<rparr>
                     else if st \<in> set [COMPLETED, FAILED, CANCELLED]
                     then j1\<lparr>completed_at := Some (datetime_now e)\<rparr> else j1);
               j3 = (case err of
                       None \<Rightarrow> j2
                     | Some msg \<Rightarrow> if msg \<noteq> [] then j2\<lparr>error_message := Some msg\<rparr> else j2);
               db1 = hset (''job:'' @ jid)
                       [(''data'', Doc (dumps_job L j3)), (''status'', Text (status_value st))] db
           in (Inr (),
               if st \<in> set [COMPLETED, FAILED, CANCELLED]
               then srem (''user:'' @ user_id j3 @ '':jobs'') jid db1 else db1)))"

text \<open>
  \<^verbatim>\<open>_process_delayed_jobs\<close>: \<^verbatim>\<open>for priority in QueuePriority\<close> runs in definition order; the
  pipeline pushes and removes each ready id in turn.
\<close>

definition promote :: "QueuePriority \<Rightarrow> rat \<Rightarrow> redis_db \<Rightarrow> redis_db" where
  "promote p now db =
     fold (\<lambda>jid d. zrem (delayed_key p) jid (lpush (queue_keys p) jid d))
       (zrangebyscore db (delayed_key p) 0 now) db"

definition process_delayed_jobs :: "'d env \<Rightarrow> redis_db \<Rightarrow> redis_db" where
  "process_delayed_jobs e db = fold (\<lambda>p d. promote p (time_time e) d) [LOW, NORMAL, HIGH, URGENT] db"

text \<open>The loop of \<^verbatim>\<open>dequeue_job\<close> over the priorities that are left.\<close>

fun dequeue_from ::
  "'d pylib \<Rightarrow> 'd env \<Rightarrow> QueuePriority list \<Rightarrow> redis_db \<Rightarrow> (error + 'd QueueJob option) \<times> redis_db" where
  "dequeue_from L e [] db = (Inr None, db)"
| "dequeue_from L e (p # ps) db =
     (case brpop (queue_keys p) db of
        (None, db1) \<Rightarrow> dequeue_from L e ps db1
      | (Some jid, db1) \<Rightarrow>
          (case get_job_data L db1 jid of
             Inl x \<Rightarrow> (Inl x, db1)
           | Inr None \<Rightarrow> dequeue_from L e ps db1
           | Inr (Some job_data) \<Rightarrow>
               (case update_job_status L e jid PROCESSING None db1 of
                  (Inl x, db2) \<Rightarrow> (Inl x, db2)
                | (Inr u, db2) \<Rightarrow> (Inr (Some job_data), db2))))"

definition dequeue_job :: "'d pylib \<Rightarrow> 'd env \<Rightarrow> manager \<Rightarrow> (error + 'd QueueJob option) \<times> manager" where
  "dequeue_job L e m =
     (case dequeue_from L e [URGENT, HIGH, NORMAL, LOW] (process_delayed_jobs e (redis m)) of
        (r, db) \<Rightarrow> (r, m\<lparr>redis := db\<rparr>))"


text \<open>
  \<^verbatim>\<open>2 ** n\<close> is a float for a negative \<^verbatim>\<open>n\<close>; the backoff delay is
  \<^verbatim>\<open>min(300, 10 * (2 ** retry_count))\<close>.
\<close>

definition pow2 :: "int \<Rightarrow> rat" where
  "pow2 n = (if n \<ge> 0 then 2 ^ nat n else 1 / 2 ^ nat (- n))"

definition backoff :: "int \<Rightarrow> rat" where
  "backoff n = min 300 (10 * pow2 n)"

text \<open>The lines of \<^verbatim>\<open>fail_job\<close> under \<^verbatim>\<open># Final failure\<close>.\<close>

definition final_failure ::
  "'d pylib \<Rightarrow> 'd env \<Rightarrow> string \<Rightarrow> string \<Rightarrow> 'd QueueJob \<Rightarrow> manager \<Rightarrow> (error + unit) \<times> manager" where
  "final_failure L e jid err job_data m =
     (case update_job_status L e jid FAILED (Some err) (redis m) of
        (Inl x, db1) \<Rightarrow> (Inl x, m\<lparr>redis := db1\<rparr>)
      | (Inr u, db1) \<Rightarrow>
          (Inr (),
           m\<lparr>redis := add_failed_job L e job_data err db1,
             stats := (stats m)\<lparr>jobs_failed := jobs_failed (stats m) + 1\<rparr>\<rparr>))"

definition fail_job ::
  "'d pylib \<Rightarrow> 'd env \<Rightarrow> string \<Rightarrow> string \<Rightarrow> bool \<Rightarrow> manager \<Rightarrow> (error + unit) \<times> manager" where
  "fail_job L e jid err retry m =
     (case get_job_data L (redis m) jid of
        Inl x \<Rightarrow> (Inl x, m)
      | Inr None \<Rightarrow> (Inr (), m)
      | Inr (Some job0) \<Rightarrow>
          (let job_data = job0\<lparr>retry_count := retry_count job0 + 1\<rparr> in
           if retry \<and> retry_count job_data \<le> max_retries job_data then
             (case enqueue_job L e (user_id job_data) (job_type job_data) (payload job_data)
                     (priority job_data) (backoff (retry_count job_data)) m of
                ((success, reason, new_job_id), m1) \<Rightarrow>
                  if success then
                    (case update_job_status L e jid CANCELLED (Some (''Retrying: '' @ err)) (redis m1) of
                       (r, db2) \<Rightarrow> (r, m1\<lparr>redis := db2\<rparr>))
                  else final_failure L e jid err job_data m1)
           else final_failure L e jid err job_data m))"

section \<open>An instance of the datetime library\<close>

text \<open>
  Naive datetimes as CPython prints and reads them, for evaluating the model on concrete
  inputs. \<open>py_fromisoformat\<close> reads the two forms that \<^verbatim>\<open>str\<close> and \<^verbatim>\<open>isoformat\<close> write
  (\<^verbatim>\<open>YYYY-MM-DD?HH:MM:SS\<close>, with \<^verbatim>\<open>.ffffff\<close> when the microseconds are not zero) and
  takes every other text for a \<^verbatim>\<open>ValueError\<close>; \<open>py_strftime\<close> knows the three formats of
  the rate limiter; \<open>py_add_seconds\<close> does not model the \<^verbatim>\<open>OverflowError\<close> past year 9999.
\<close>

record datetime =
  year :: nat
  month :: nat
  day :: nat
  hour :: nat
  minute :: nat
  second :: nat
  microsecond :: nat

definition digit_char :: "nat \<Rightarrow> char" where
  "digit_char n = ''0123456789'' ! (n mod 10)"

definition pad2 :: "nat \<Rightarrow> string" where
  "pad2 n = [digit_char (n div 10), digit_char n]"

definition pad4 :: "nat \<Rightarrow> string" where
  "pad4 n = pad2 (n div 100) @ pad2 n"

definition pad6 :: "nat \<Rightarrow> string" where
  "pad6 n = pad2 (n div 10000) @ pad4 n"

definition fmt_date :: "datetime \<Rightarrow> string" where
  "fmt_date d = pad4 (year d) @ ''-'' @ pad2 (month d) @ ''-'' @ pad2 (day d)"

definition fmt_time :: "datetime \<Rightarrow> string" where
  "fmt_time d = pad2 (hour d) @ '':'' @ pad2 (minute d) @ '':'' @ pad2 (second d) @
     (if microsecond d = 0 then [] else ''.'' @ pad6 (microsecond d))"

definition py_str :: "datetime \<Rightarrow> string" where
  "py_str d = fmt_date d @ '' '' @ fmt_time d"

definition py_isoformat :: "datetime \<Rightarrow> string" where
  "py_isoformat d = fmt_date d @ ''T'' @ fmt_time d"

definition py_strftime :: "datetime \<Rightarrow> string \<Rightarrow> string" where
  "py_strftime d fmt =
     (if fmt = ''%Y-%m-%d:%H:%M'' then fmt_date d @ '':'' @ pad2 (hour d) @ '':'' @ pad2 (minute d)
      else if fmt = ''%Y-%m-%d:%H'' then fmt_date d @ '':'' @ pad2 (hour d)
      else if fmt = ''%Y-%m-%d'' then fmt_date d
      else fmt)"

definition digit_val :: "char \<Rightarrow> nat option" where
  "digit_val c =
     (if c = CHR ''0'' then Some 0 else if c = CHR ''1'' then Some 1
      else if c = CHR ''2'' then Some 2 else if c = CHR ''3'' then Some 3
      else if c = CHR ''4'' then Some 4 else if c = CHR ''5'' then Some 5
      else if c = CHR ''6'' then Some 6 else if c = CHR ''7'' then Some 7
      else if c = CHR ''8'' then Some 8 else if c = CHR ''9'' then Some 9 else None)"

primrec digits_val :: "string \<Rightarrow> nat \<Rightarrow> nat option" where
  "digits_val [] acc = Some acc"
| "digits_val (c # cs) acc =
     (case digit_val c of None \<Rightarrow> None | Some v \<Rightarrow> digits_val cs (10 * acc + v))"

definition number :: "string \<Rightarrow> nat option" where
  "number s = (if s = [] then None else digits_val s 0)"

definition is_leap :: "nat \<Rightarrow> bool" where
  "is_leap y = (y mod 4 = 0 \<and> (y mod 100 \<noteq> 0 \<or> y mod 400 = 0))"

definition days_in_month :: "nat \<Rightarrow> nat \<Rightarrow> nat" where
  "days_in_month y m =
     (if m = 2 then (if is_leap y then 29 else 28)
      else if m = 4 \<or> m = 6 \<or> m = 9 \<or> m = 11 then 30 else 31)"

definition py_fromisoformat :: "string \<Rightarrow> datetime option" where
  "py_fromisoformat s =
     (if (length s = 19 \<or> length s = 26 \<and> s ! 19 = CHR ''.'') \<and>
         s ! 4 = CHR ''-'' \<and> s ! 7 = CHR ''-'' \<and> s ! 13 = CHR '':'' \<and> s ! 16 = CHR '':''
      then
        (case (number (take 4 s), number (take 2 (drop 5 s)), number (take 2 (drop 8 s)),
               number (take 2 (drop 11 s)), number (take 2 (drop 14 s)),
               number (take 2 (drop 17 s)),
               (if length s = 19 then Some 0 else number (drop 20 s))) of
           (Some y, Some mo, Some da, Some h, Some mi, Some sec, Some us) \<Rightarrow>
             if 1 \<le> y \<and> 1 \<le> mo \<and> mo \<le> 12 \<and> 1 \<le> da \<and> da \<le> days_in_month y mo \<and>
                h \<le> 23 \<and> mi \<le> 59 \<and> sec \<le> 59
             then Some \<lparr>year = y, month = mo, day = da, hour = h, minute = mi, second = sec,
                        microsecond = us\<rparr>
             else None
         | _ \<Rightarrow> None)
      else None)"

definition next_day :: "datetime \<Rightarrow> datetime" where
  "next_day d =
     (if day d < days_in_month (year d) (month d) then d\<lparr>day := day d + 1\<rparr>
      else if month d < 12 then d\<lparr>month := month d + 1, day := 1\<rparr>
      else d\<lparr>year := year d + 1, month := 1, day := 1\<rparr>)"

text \<open>\<^verbatim>\<open>timedelta\<close> rounds a fraction of a microsecond half to even.\<close>

definition round_half_even :: "rat \<Rightarrow> int" where
  "round_half_even x =
     (if x - of_int \<lfloor>x\<rfloor> < 1 / 2 then \<lfloor>x\<rfloor>
      else if x - of_int \<lfloor>x\<rfloor> > 1 / 2 then \<lfloor>x\<rfloor> + 1
      else if even \<lfloor>x\<rfloor> then \<lfloor>x\<rfloor> else \<lfloor>x\<rfloor> + 1)"

definition py_add_seconds :: "datetime \<Rightarrow> rat \<Rightarrow> datetime" where
  "py_add_seconds d s =
     (let us = ((hour d * 60 + minute d) * 60 + second d) * 1000000 + microsecond d
                 + nat (round_half_even (s * 1000000));
          rest = us mod 86400000000
      in ((next_day ^^ (us div 86400000000)) d)
           \<lparr>hour := rest div 3600000000, minute := rest div 60000000 mod 60,
            second := rest div 1000000 mod 60, microsecond := rest mod 1000000\<rparr>)"

definition python :: "datetime pylib" where
  "python = \<lparr>dt_str = py_str, dt_isoformat = py_isoformat,
     dt_fromisoformat = py_fromisoformat, dt_strftime = py_strftime,
     dt_add_seconds = py_add_seconds\<rparr>"

section \<open>EnhancedModelCache\<close>

text \<open>
  \<^verbatim>\<open>services/asset-gen/enhanced_ai_pipeline.py\<close>. The three dictionaries of the cache are
  association lists in insertion order, which is the order Python iterates a \<^verbatim>\<open>dict\<close> in.
  One call reads from its environment the clock (\<^verbatim>\<open>datetime.now()\<close>), what
  \<^verbatim>\<open>memory_monitor.check_memory_pressure()\<close> answers, and the two readings of
  \<^verbatim>\<open>torch.cuda.memory_allocated()\<close> that \<^verbatim>\<open>put\<close> takes (\<open>None\<close> when CUDA is not
  available).
\<close>

record ('m, 't) model_cache =
  cache :: "(string \<times> 'm) list"
  usage_times :: "(string \<times> 't) list"
  memory_sizes :: "(string \<times> int) list"
  max_models :: int

record 't gpu_env =
  clock :: 't
  memory_pressure :: bool
  memory_allocated :: "(int \<times> int) option"

definition new_cache :: "int \<Rightarrow> ('m, 't) model_cache" where
  "new_cache n = \<lparr>cache = [], usage_times = [], memory_sizes = [], max_models = n\<rparr>"

definition get :: "'t gpu_env \<Rightarrow> string \<Rightarrow> ('m, 't) model_cache \<Rightarrow> 'm option \<times> ('m, 't) model_cache" where
  "get e model_id c =
     (if model_id \<in> fst ` set (cache c)
      then (map_of (cache c) model_id,
            c\<lparr>usage_times := AList.update model_id (clock e) (usage_times c)\<rparr>)
      else (None, c))"

text \<open>
  \<^verbatim>\<open>_evict\<close>: \<^verbatim>\<open>del self.usage_times[model_id]\<close> raises \<^verbatim>\<open>KeyError\<close> when the key is
  missing there.
\<close>

definition evict :: "string \<Rightarrow> ('m, 't) model_cache \<Rightarrow> error + ('m, 't) model_cache" where
  "evict model_id c =
     (if model_id \<in> fst ` set (cache c) then
        (if model_id \<in> fst ` set (usage_times c) then
           Inr (c\<lparr>cache := AList.delete model_id (cache c),
                  usage_times := AList.delete model_id (usage_times c),
                  memory_sizes := AList.delete model_id (memory_sizes c)\<rparr>)
         else Inl (KeyError model_id))
      else Inr c)"

text \<open>
  \<^verbatim>\<open>min(d.keys(), key=lambda k: d[k])\<close> and \<^verbatim>\<open>max\<close> return the first key, in iteration
  order, whose value is least (greatest); \<open>None\<close> stands for the \<^verbatim>\<open>ValueError\<close> on an
  empty dictionary.
\<close>

fun oldest :: "(string \<times> 't::linorder) list \<Rightarrow> (string \<times> 't) option" where
  "oldest [] = None"
| "oldest (x # xs) =
     (case oldest xs of None \<Rightarrow> Some x | Some y \<Rightarrow> if snd y < snd x then Some y else Some x)"

fun newest :: "(string \<times> 't::linorder) list \<Rightarrow> (string \<times> 't) option" where
  "newest [] = None"
| "newest (x # xs) =
     (case newest xs of None \<Rightarrow> Some x | Some y \<Rightarrow> if snd x < snd y then Some y else Some x)"

fun evict_each :: "string list \<Rightarrow> ('m, 't) model_cache \<Rightarrow> error + ('m, 't) model_cache" where
  "evict_each [] c = Inr c"
| "evict_each (k # ks) c = (case evict k c of Inl x \<Rightarrow> Inl x | Inr c1 \<Rightarrow> evict_each ks c1)"

definition evict_all_except_newest ::
  "('m, 't::linorder) model_cache \<Rightarrow> error + ('m, 't) model_cache" where
  "evict_all_except_newest c =
     (if cache c = [] then Inr c
      else
        (case newest (usage_times c) of
           None \<Rightarrow> Inl (ValueError ''max() arg is an empty sequence'')
         | Some (newest_id, t) \<Rightarrow>
             evict_each (filter (\<lambda>mid. mid \<noteq> newest_id) (map fst (cache c))) c))"

text \<open>
  The \<^verbatim>\<open>while\<close> loop of \<^verbatim>\<open>_ensure_cache_space\<close>. When the oldest key of
  \<open>usage_times\<close> is no key of \<open>cache\<close>, \<^verbatim>\<open>_evict\<close> changes nothing and the loop runs
  again on the same state, for ever: the result \<open>None\<close>.
\<close>

lemma length_delete_less:
  "(k, v) \<in> set xs \<Longrightarrow> length (AList.delete k xs) < length xs"
  unfolding AList.delete_eq by (rule length_filter_less [where x = "(k, v)"]) auto

function lru_evict :: "('m, 't::linorder) model_cache \<Rightarrow> (error + ('m, 't) model_cache) option" where
  "lru_evict c =
     (if int (length (cache c)) \<ge> max_models c then
        (case oldest (usage_times c) of
           None \<Rightarrow> Some (Inl (ValueError ''min() arg is an empty sequence''))
         | Some (oldest_id, t) \<Rightarrow>
             if oldest_id \<in> fst ` set (cache c) then
               (case evict oldest_id c of
                  Inl x \<Rightarrow> Some (Inl x)
                | Inr c1 \<Rightarrow> lru_evict c1)
             else None)
      else Some (Inr c))"
  by pat_completeness auto
termination
  by (relation "measure (\<lambda>c. length (cache c))")
     (auto simp: evict_def length_delete_less split: if_splits)

definition ensure_cache_space ::
  "'t gpu_env \<Rightarrow> ('m, 't::linorder) model_cache \<Rightarrow> (error + ('m, 't) model_cache) option" where
  "ensure_cache_space e c =
     (if memory_pressure e then Some (evict_all_except_newest c) else lru_evict c)"

definition put ::
  "'t gpu_env \<Rightarrow> string \<Rightarrow> 'm \<Rightarrow> ('m, 't::linorder) model_cache
     \<Rightarrow> (error + ('m, 't) model_cache) option" where
  "put e model_id model c =
     (case ensure_cache_space e c of
        None \<Rightarrow> None
      | Some (Inl x) \<Rightarrow> Some (Inl x)
      | Some (Inr c1) \<Rightarrow>
          Some (Inr (c1\<lparr>cache := AList.update model_id model (cache c1),
                         usage_times := AList.update model_id (clock e) (usage_times c1),
                         memory_sizes :=
                           (case memory_allocated e of
                              None \<Rightarrow> memory_sizes c1
                            | Some (start_memory, end_memory) \<Rightarrow>
                                AList.update model_id (end_memory - start_memory)
                                  (memory_sizes c1))\<rparr>)))"

section \<open>Concrete inputs\<close>

definition noon :: datetime where
  "noon = \<lparr>year = 2024, month = 1, day = 2, hour = 12, minute = 0, second = 0,
     microsecond = 0\<rparr>"

text \<open>A call made at \<^verbatim>\<open>time.time() = t\<close> that draws the identifier \<open>u\<close>.\<close>

definition call_at :: "rat \<Rightarrow> string \<Rightarrow> datetime env" where
  "call_at t u = \<lparr>datetime_now = noon, time_time = t, uuid4 = u\<rparr>"

text \<open>
  No record of the store reads back: what \<^verbatim>\<open>_get_job_data\<close> returns for every id is
  \<^verbatim>\<open>None\<close>.
\<close>

definition all_unreadable :: "'d pylib \<Rightarrow> redis_db \<Rightarrow> bool" where
  "all_unreadable L db = (\<forall>jid. get_job_data L db jid = Inr None)"

text \<open>User \<^verbatim>\<open>u1\<close> enqueues job \<open>A\<close> on a new manager over an empty store.\<close>

definition one_job :: "QueuePriority \<Rightarrow> rat \<Rightarrow> manager" where
  "one_job prio delay_seconds =
     snd (enqueue_job python (call_at 1000 ''A'') ''u1'' ''gen'' (JObj []) prio delay_seconds
       (new_manager empty_db 1000))"

text \<open>Then job \<open>B\<close>, one second later.\<close>

definition two_jobs :: "QueuePriority \<Rightarrow> QueuePriority \<Rightarrow> manager" where
  "two_jobs prio_a prio_b =
     snd (enqueue_job python (call_at 1001 ''B'') ''u1'' ''gen'' (JObj []) prio_b 0
       (one_job prio_a 0))"

text \<open>
  A store in which user \<^verbatim>\<open>u1\<close> has three jobs in status \<^verbatim>\<open>PROCESSING\<close>, each record as
  \<^verbatim>\<open>_update_job_status\<close> writes it.
\<close>

definition processing_record :: "string \<Rightarrow> string \<times> (string \<times> rtext) list" where
  "processing_record jid =
     (''job:'' @ jid,
      [(''data'', Doc (dumps_job python
          \<lparr>job_id = jid, user_id = ''u1'', job_type = ''gen'', payload = JObj [],
           priority = NORMAL, status = PROCESSING, created_at = noon, scheduled_at = None,
           started_at = Some noon, completed_at = None, retry_count = 0, max_retries = 3,
           timeout_seconds = 300, error_message = None, progress = 0, metadata = JObj []\<rparr>)),
       (''user_id'', Text ''u1''),
       (''status'', Text ''processing'')])"

definition busy_db :: redis_db where
  "busy_db = empty_db\<lparr>hashes := map processing_record [''A'', ''B'', ''C''],
     sets := [(''user:u1:jobs'', [''A'', ''B'', ''C''])]\<rparr>"

text \<open>A call of the cache at clock reading \<open>t\<close>, with no memory pressure and no CUDA.\<close>

definition reading :: "nat \<Rightarrow> nat gpu_env" where
  "reading t = \<lparr>clock = t, memory_pressure = False, memory_allocated = None\<rparr>"

text \<open>A manager with \<^verbatim>\<open>max_queue_size = 1\<close> whose queue job \<open>A\<close> fills.\<close>

definition full_queue :: manager where
  "full_queue =
     snd (enqueue_job python (call_at 1000 ''A'') ''u1'' ''gen'' (JObj []) NORMAL 0
       (new_manager empty_db 1))"


section \<open>Frame lemmas of the store\<close>

lemmas redis_ops = hset_def hget_def lpush_def brpop_def zadd_def zrem_def zrangebyscore_def
  sadd_def srem_def incr_def expire_def redis_get_def redis_set_def llen_def zcard_def
  table_get_def keys_def all_keys_def empty_db_def

lemmas limiter_defs = check_rate_limit_def reached_def get_concurrent_jobs_def
  increment_rate_limit_def minute_key_def hour_key_def day_key_def rate_key_def
  default_limits_def

lemmas python_defs = python_def py_str_def py_isoformat_def py_strftime_def fmt_date_def
  fmt_time_def pad2_def pad4_def pad6_def digit_char_def noon_def call_at_def

lemmas manager_defs = enqueue_job_def process_delayed_jobs_def promote_def
  get_total_queue_size_def new_manager_def delayed_key_def Let_def

lemma table_get_update [simp]:
  "table_get (AList.update k v t) k' = (if k' = k then v else table_get t k')"
  by (simp add: table_get_def update_conv')

lemma hashes_expire [simp]: "hashes (expire k s n db) = hashes db"
  by (simp add: expire_def)

lemma hashes_incr [simp]: "hashes (incr k db) = hashes db"
  by (simp add: incr_def)

lemma hashes_lpush [simp]: "hashes (lpush k v db) = hashes db"
  by (simp add: lpush_def)

lemma hashes_zadd [simp]: "hashes (zadd k v s db) = hashes db"
  by (simp add: zadd_def)

lemma hashes_sadd [simp]: "hashes (sadd k v db) = hashes db"
  by (simp add: sadd_def)

lemma hashes_increment_rate_limit [simp]:
  "hashes (increment_rate_limit L e uid db) = hashes db"
  by (simp add: increment_rate_limit_def Let_def)

section \<open>C1: a stored job does not read back\<close>

text \<open>
  Whatever the job, the document \<^verbatim>\<open>json.dumps(asdict(job), default=str)\<close> holds the
  priority as the text \<^verbatim>\<open>QueuePriority.NAME\<close>, which is the value of no member:
  \<^verbatim>\<open>QueuePriority(data["priority"])\<close> raises \<^verbatim>\<open>ValueError\<close>, which \<^verbatim>\<open>_get_job_data\<close>
  catches.
\<close>

lemma parse_dumps_job: "parse_job L (dumps_job L job) = Caught"
  by (auto simp: parse_job_def dumps_job_def item_def bind_def fromisoformat_def
        optional_datetime_def dumps_optional_datetime_def priority_of_value_def
      split: option.splits)

text \<open>
  C1 (the code breaks the claim). For every job that \<^verbatim>\<open>enqueue_job\<close> admits and writes to
  the store, \<^verbatim>\<open>_get_job_data\<close> of its id returns \<^verbatim>\<open>None\<close>: serialising and reading back is
  not the identity on jobs, for no job at all.
\<close>

theorem enqueue_job_record_unreadable:
  assumes "enqueue_job L e uid jtype pl prio d m = ((True, msg, Some jid), m')"
  shows "get_job_data L (redis m') jid = Inr None"
  using assms
  by (auto simp: enqueue_job_def Let_def get_job_data_def hget_def hset_def update_conv'
        parse_dumps_job split: prod.splits if_splits)

lemma admitted_empty:
  "fst (enqueue_job python (call_at 1000 ''A'') ''u1'' ''gen'' (JObj []) NORMAL 0
          (new_manager empty_db 1000))
     = (True, ''Job queued successfully'', Some ''A'')"
  by (simp add: enqueue_job_def check_rate_limit_def reached_def redis_get_def empty_db_def
        get_concurrent_jobs_def keys_def all_keys_def get_total_queue_size_def llen_def
        zcard_def table_get_def new_manager_def default_limits_def call_at_def Let_def)

theorem enqueue_job_record_unreadable_witness:
  "enqueue_job python (call_at 1000 ''A'') ''u1'' ''gen'' (JObj []) NORMAL 0
       (new_manager empty_db 1000)
     = ((True, ''Job queued successfully'', Some ''A''),
        snd (enqueue_job python (call_at 1000 ''A'') ''u1'' ''gen'' (JObj []) NORMAL 0
               (new_manager empty_db 1000)))
   \<and> get_job_data python
        (redis (snd (enqueue_job python (call_at 1000 ''A'') ''u1'' ''gen'' (JObj []) NORMAL 0
           (new_manager empty_db 1000)))) ''A'' = Inr None"
proof -
  have h: "enqueue_job python (call_at 1000 ''A'') ''u1'' ''gen'' (JObj []) NORMAL 0
       (new_manager empty_db 1000)
     = ((True, ''Job queued successfully'', Some ''A''),
        snd (enqueue_job python (call_at 1000 ''A'') ''u1'' ''gen'' (JObj []) NORMAL 0
               (new_manager empty_db 1000)))"
    using admitted_empty by (metis prod.collapse)
  show ?thesis using h enqueue_job_record_unreadable [OF h] by simp
qed

section \<open>Stores in which no record reads back\<close>

lemma get_job_data_hashes:
  "hashes db = hashes db' \<Longrightarrow> get_job_data L db jid = get_job_data L db' jid"
  by (simp add: get_job_data_def hget_def)

lemma all_unreadable_hashes:
  "hashes db = hashes db' \<Longrightarrow> all_unreadable L db = all_unreadable L db'"
  by (simp add: all_unreadable_def get_job_data_hashes [of db db'])

lemma all_unreadable_empty: "all_unreadable L empty_db"
  by (simp add: all_unreadable_def get_job_data_def hget_def empty_db_def table_get_def)

lemma hashes_brpop [simp]: "hashes (snd (brpop k db)) = hashes db"
  by (simp add: brpop_def split: list.splits)

lemma hashes_zrem [simp]: "hashes (zrem k v db) = hashes db"
  by (simp add: zrem_def)

lemma hashes_fold:
  "(\<And>x d. hashes (f x d) = hashes d) \<Longrightarrow> hashes (fold f xs db) = hashes db"
  by (induction xs arbitrary: db) simp_all

lemma hashes_promote [simp]: "hashes (promote p now db) = hashes db"
  by (simp add: promote_def hashes_fold)

lemma hashes_process_delayed_jobs [simp]: "hashes (process_delayed_jobs e db) = hashes db"
  by (simp add: process_delayed_jobs_def)

lemma all_unreadable_enqueue_job:
  "all_unreadable L (redis m) \<Longrightarrow>
   all_unreadable L (redis (snd (enqueue_job L e uid jtype pl prio d m)))"
  by (auto simp: all_unreadable_def enqueue_job_def Let_def get_job_data_def hget_def hset_def
        update_conv' parse_dumps_job split: prod.splits if_splits)


text \<open>The loop of \<^verbatim>\<open>dequeue_job\<close> then takes one id from every list and returns none.\<close>

lemma dequeue_from_unreadable:
  "all_unreadable L db \<Longrightarrow>
   dequeue_from L e ps db = (Inr None, fold (\<lambda>p d. snd (brpop (queue_keys p) d)) ps db)"
proof (induction ps arbitrary: db)
  case Nil
  then show ?case by simp
next
  case (Cons p ps)
  have u: "all_unreadable L (snd (brpop (queue_keys p) db))"
    using Cons.prems all_unreadable_hashes [of "snd (brpop (queue_keys p) db)" db L] by simp
  show ?case
    using Cons.IH [OF u] u
    by (auto simp: all_unreadable_def split: prod.splits option.splits)
qed

lemma dequeue_job_unreadable:
  assumes "all_unreadable L (redis m)"
  shows "dequeue_job L e m =
    (Inr None, m\<lparr>redis := fold (\<lambda>p d. snd (brpop (queue_keys p) d)) [URGENT, HIGH, NORMAL, LOW]
       (process_delayed_jobs e (redis m))\<rparr>)"
proof -
  have u: "all_unreadable L (process_delayed_jobs e (redis m))"
    using assms all_unreadable_hashes [of "process_delayed_jobs e (redis m)" "redis m" L] by simp
  show ?thesis
    unfolding dequeue_job_def dequeue_from_unreadable [OF u] by simp
qed

lemma fail_job_unreadable:
  "all_unreadable L (redis m) \<Longrightarrow> fail_job L e jid err retry m = (Inr (), m)"
  by (simp add: fail_job_def all_unreadable_def)

lemma all_unreadable_one_job: "all_unreadable python (redis (one_job prio d))"
  unfolding one_job_def
  by (rule all_unreadable_enqueue_job) (simp add: new_manager_def all_unreadable_empty)

lemma all_unreadable_two_jobs: "all_unreadable python (redis (two_jobs pa pb))"
  unfolding two_jobs_def by (rule all_unreadable_enqueue_job) (rule all_unreadable_one_job)

lemmas enqueue_eval = one_job_def two_jobs_def enqueue_job_def redis_ops limiter_defs python_defs
  get_total_queue_size_def new_manager_def Let_def delayed_key_def

section \<open>C4: the next dequeue after NORMAL then URGENT\<close>

lemma two_jobs_lists:
  "lists (redis (two_jobs NORMAL URGENT)) = [(''queue:normal'', [''A'']), (''queue:urgent'', [''B''])]"
  by (simp add: enqueue_eval)

lemma two_jobs_zsets: "zsets (redis (two_jobs NORMAL URGENT)) = []"
  by (simp add: enqueue_eval)

text \<open>
  C4 (the code breaks the claim). Job \<open>A\<close> is enqueued with priority NORMAL, then job \<open>B\<close>
  with priority URGENT, both without delay. \<open>B\<close> waits in the urgent list, and the next
  \<^verbatim>\<open>dequeue_job\<close> returns \<^verbatim>\<open>None\<close>, not \<open>B\<close>: it takes \<open>B\<close> from the urgent list, cannot
  read its record, goes on to the lower priorities, takes \<open>A\<close> as well, and leaves both
  lists empty.
\<close>

theorem dequeue_job_after_normal_then_urgent:
  "table_get (lists (redis (two_jobs NORMAL URGENT))) ''queue:urgent'' = [''B''] \<and>
   fst (dequeue_job python (call_at 1002 ''C'') (two_jobs NORMAL URGENT)) = Inr None \<and>
   lists (redis (snd (dequeue_job python (call_at 1002 ''C'') (two_jobs NORMAL URGENT))))
     = [(''queue:normal'', []), (''queue:urgent'', [])]"
  by (simp add: dequeue_job_unreadable [OF all_unreadable_two_jobs] two_jobs_lists two_jobs_zsets
        process_delayed_jobs_def promote_def zrangebyscore_def brpop_def table_get_def
        delayed_key_def)

section \<open>C2: four failure reports\<close>

lemma one_job_status: "hget (redis (one_job prio d)) ''job:A'' ''status'' = Some (Text ''queued'')"
  by (simp add: enqueue_eval)

lemma one_job_dead_letters: "dead_letters (redis (one_job prio d)) = []"
  by (simp add: enqueue_eval)

text \<open>
  C2 (the code breaks the claim). A job is enqueued (\<^verbatim>\<open>max_retries = 3\<close>) and the worker
  reports failure four times with \<^verbatim>\<open>retry=True\<close>. Every \<^verbatim>\<open>fail_job\<close> returns at
  \<^verbatim>\<open>if not job_data: return\<close>: the manager is unchanged, the stored status is still
  \<^verbatim>\<open>queued\<close> and the dead-letter list is empty.
\<close>

theorem four_failures_leave_job_queued:
  "fail_job python (call_at 1040 ''E'') ''A'' ''boom'' True
     (snd (fail_job python (call_at 1030 ''D'') ''A'' ''boom'' True
        (snd (fail_job python (call_at 1020 ''C'') ''A'' ''boom'' True
           (snd (fail_job python (call_at 1010 ''B'') ''A'' ''boom'' True
              (one_job NORMAL 0)))))))
     = (Inr (), one_job NORMAL 0) \<and>
   hget (redis (one_job NORMAL 0)) ''job:A'' ''status'' = Some (Text ''queued'') \<and>
   dead_letters (redis (one_job NORMAL 0)) = []"
  by (simp add: fail_job_unreadable [OF all_unreadable_one_job] one_job_status
        one_job_dead_letters)

section \<open>C5: a delayed job\<close>

lemma delayed_job_zsets:
  "zsets (redis (one_job NORMAL 5)) = [(''queue:normal:delayed'', [(''A'', 1005)])]"
  by (simp add: enqueue_eval)

lemma delayed_job_lists: "lists (redis (one_job NORMAL 5)) = []"
  by (simp add: enqueue_eval)

text \<open>
  C5 (the code breaks the claim). A job enqueued at time 1000 with a delay of 5 seconds is
  in the delayed set of its priority with score 1005 and in no active list. The
  \<^verbatim>\<open>dequeue_job\<close> at time 1006 promotes it, takes it from the active list, cannot read its
  record and returns \<^verbatim>\<open>None\<close>; afterwards the id is in neither structure, so no later call
  can return the job either.
\<close>

theorem delayed_job_is_promoted_and_lost:
  "zsets (redis (one_job NORMAL 5)) = [(''queue:normal:delayed'', [(''A'', 1005)])] \<and>
   lists (redis (one_job NORMAL 5)) = [] \<and>
   fst (dequeue_job python (call_at 1006 ''B'') (one_job NORMAL 5)) = Inr None \<and>
   lists (redis (snd (dequeue_job python (call_at 1006 ''B'') (one_job NORMAL 5))))
     = [(''queue:normal'', [])] \<and>
   zsets (redis (snd (dequeue_job python (call_at 1006 ''B'') (one_job NORMAL 5))))
     = [(''queue:normal:delayed'', [])]"
  by (simp add: dequeue_job_unreadable [OF all_unreadable_one_job] delayed_job_zsets
        delayed_job_lists process_delayed_jobs_def promote_def zrangebyscore_def brpop_def
        lpush_def zrem_def table_get_def delayed_key_def call_at_def)

section \<open>The key pattern of the concurrent-jobs count\<close>

text \<open>
  \<^verbatim>\<open>get_concurrent_jobs\<close> counts the keys that match
  \<^verbatim>\<open>job:*:user:<id>:status:processing\<close>, while the manager keeps a job under the key
  \<^verbatim>\<open>job:<id>\<close> with the status in a field of the hash. On \<open>busy_db\<close>, where three jobs of
  the user are in status \<^verbatim>\<open>PROCESSING\<close>, no key matches, the count is 0 and
  \<^verbatim>\<open>check_rate_limit\<close> allows the request. No call sequence of the manager writes
  \<open>busy_db\<close>: \<^verbatim>\<open>_update_job_status\<close> writes a status only for a record that reads back.
\<close>

lemma check_rate_limit_on_busy_db:
  "map (\<lambda>k. hget busy_db k ''status'') [''job:A'', ''job:B'', ''job:C'']
     = [Some (Text ''processing''), Some (Text ''processing''), Some (Text ''processing'')] \<and>
   get_concurrent_jobs busy_db ''u1'' = 0 \<and>
   check_rate_limit python default_limits (call_at 1000 ''D'') busy_db ''u1'' = (True, ''OK'')"
  by (simp add: busy_db_def processing_record_def redis_ops limiter_defs)

section \<open>C9: which entry the cache evicts\<close>

text \<open>
  C9 (amended). A new cache with \<^verbatim>\<open>max_models = 2\<close> and no memory pressure: \<^verbatim>\<open>put(A)\<close>,
  \<^verbatim>\<open>put(B)\<close>, \<^verbatim>\<open>get(A)\<close>, \<^verbatim>\<open>put(C)\<close>. Every call returns, and \<^verbatim>\<open>get\<close> hits and sets the
  last-access time of \<open>A\<close> to its clock reading. The last \<^verbatim>\<open>put\<close> evicts the first key, in
  insertion order, among those with the least last-access time: it evicts \<open>B\<close> and keeps
  \<open>A\<close> and \<open>C\<close> when the clock at \<^verbatim>\<open>get(A)\<close> is later than at \<^verbatim>\<open>put(B)\<close>, and it evicts \<open>A\<close>
  and keeps \<open>B\<close> and \<open>C\<close> when the two readings are equal or the clock went back.
\<close>

theorem lru_eviction_follows_timestamps:
  fixes e1 e2 e3 e4 :: "('t::linorder) gpu_env"
  assumes "a \<noteq> b" "a \<noteq> c" "b \<noteq> c"
    and "\<not> memory_pressure e1" "\<not> memory_pressure e2" "\<not> memory_pressure e4"
  shows "\<exists>c1 c2 c3 c4.
           put e1 a ma (new_cache 2) = Some (Inr c1) \<and>
           put e2 b mb c1 = Some (Inr c2) \<and>
           get e3 a c2 = (Some ma, c3) \<and>
           usage_times c3 = [(a, clock e3), (b, clock e2)] \<and>
           put e4 c mc c3 = Some (Inr c4) \<and>
           (clock e2 < clock e3 \<longrightarrow>
              cache c4 = [(a, ma), (c, mc)] \<and>
              usage_times c4 = [(a, clock e3), (c, clock e4)]) \<and>
           (clock e3 \<le> clock e2 \<longrightarrow>
              cache c4 = [(b, mb), (c, mc)] \<and>
              usage_times c4 = [(b, clock e2), (c, clock e4)])"
  using assms
  by (auto simp: put_def ensure_cache_space_def new_cache_def get_def evict_def AList.delete_eq)

theorem lru_eviction_follows_timestamps_witness:
  "\<exists>c1 c2 c3 c4.
     put (reading 1) ''A'' (10::nat) (new_cache 2) = Some (Inr c1) \<and>
     put (reading 2) ''B'' 20 c1 = Some (Inr c2) \<and>
     get (reading 3) ''A'' c2 = (Some 10, c3) \<and>
     usage_times c3 = [(''A'', 3), (''B'', 2)] \<and>
     put (reading 4) ''C'' 30 c3 = Some (Inr c4) \<and>
     cache c4 = [(''A'', 10), (''C'', 30)] \<and>
     usage_times c4 = [(''A'', 3), (''C'', 4)]"
  using lru_eviction_follows_timestamps [of "''A''" "''B''" "''C''"
     "reading 1" "reading 2" "reading 4" "10::nat" 20 "reading 3" 30]
  by (simp add: reading_def)

text \<open>
  C9 as stated fails: when \<^verbatim>\<open>datetime.now()\<close> reads the same instant at \<^verbatim>\<open>put(B)\<close> and at
  \<^verbatim>\<open>get(A)\<close>, \<^verbatim>\<open>min\<close> returns \<open>A\<close>, the first of the two keys, and \<^verbatim>\<open>put(C)\<close> evicts \<open>A\<close>,
  the entry used last, and keeps \<open>B\<close>.
\<close>

theorem equal_timestamps_evict_first_inserted:
  "\<exists>c1 c2 c3 c4.
     put (reading 1) ''A'' (10::nat) (new_cache 2) = Some (Inr c1) \<and>
     put (reading 2) ''B'' 20 c1 = Some (Inr c2) \<and>
     get (reading 2) ''A'' c2 = (Some 10, c3) \<and>
     put (reading 3) ''C'' 30 c3 = Some (Inr c4) \<and>
     cache c4 = [(''B'', 20), (''C'', 30)]"
  by (simp add: put_def ensure_cache_space_def new_cache_def get_def evict_def AList.delete_eq
        reading_def)

section \<open>C10: a failure report while the queue is full\<close>

lemma all_unreadable_full_queue: "all_unreadable python (redis full_queue)"
  unfolding full_queue_def
  by (rule all_unreadable_enqueue_job) (simp add: new_manager_def all_unreadable_empty)

lemma full_queue_total:
  "get_total_queue_size (redis full_queue) = 1 \<and> max_queue_size full_queue = 1"
  by (simp add: full_queue_def enqueue_eval)

lemma full_queue_rejects:
  "fst (enqueue_job python (call_at 1010 ''B'') ''u1'' ''gen'' (JObj []) NORMAL (backoff 1) full_queue)
     = (False, ''Queue is full, please try again later'', None)"
  by (simp add: full_queue_def enqueue_eval)

lemma full_queue_status:
  "hget (redis full_queue) ''job:A'' ''status'' = Some (Text ''queued'') \<and>
   dead_letters (redis full_queue) = []"
  by (simp add: full_queue_def enqueue_eval)

text \<open>
  C10 (the code breaks the claim). Job \<open>A\<close> fills the queue of a manager with
  \<^verbatim>\<open>max_queue_size = 1\<close>; it has \<^verbatim>\<open>retry_count = 0\<close> and \<^verbatim>\<open>max_retries = 3\<close>, so retries
  remain, and \<^verbatim>\<open>enqueue_job\<close> would reject the retry with the queue-full reason. The
  worker reports failure with \<^verbatim>\<open>retry=True\<close>: \<^verbatim>\<open>fail_job\<close> returns at
  \<^verbatim>\<open>if not job_data: return\<close> before the admission path; the job is not marked
  \<^verbatim>\<open>FAILED\<close> (the stored status is still \<^verbatim>\<open>queued\<close>) and nothing is written to the
  dead-letter queue.
\<close>

theorem fail_job_with_full_queue:
  "get_total_queue_size (redis full_queue) = 1 \<and> max_queue_size full_queue = 1 \<and>
   fst (enqueue_job python (call_at 1010 ''B'') ''u1'' ''gen'' (JObj []) NORMAL (backoff 1) full_queue)
     = (False, ''Queue is full, please try again later'', None) \<and>
   fail_job python (call_at 1010 ''B'') ''A'' ''boom'' True full_queue = (Inr (), full_queue) \<and>
   hget (redis full_queue) ''job:A'' ''status'' = Some (Text ''queued'') \<and>
   dead_letters (redis full_queue) = []"
  using full_queue_total full_queue_rejects full_queue_status
    fail_job_unreadable [OF all_unreadable_full_queue]
  by simp

section \<open>C7: the stored status under later calls\<close>

lemma hashes_redis_set [simp]: "hashes (redis_set k v db) = hashes db"
  by (simp add: redis_set_def)


lemma hashes_pop_each [simp]:
  "hashes (fold (\<lambda>p d. snd (brpop (queue_keys p) d)) ps db) = hashes db"
  by (simp add: hashes_fold)





section \<open>C6: the order within one priority\<close>

lemma lists_frame [simp]:
  "lists (expire k s n db) = lists db"
  "lists (hset k fs db) = lists db"
  "lists (incr k db) = lists db"
  "lists (sadd k v db) = lists db"
  "lists (zadd k v sc db) = lists db"
  "lists (increment_rate_limit L e uid db) = lists db"
  by (simp_all add: expire_def hset_def incr_def sadd_def zadd_def increment_rate_limit_def Let_def)

lemma zsets_frame [simp]:
  "zsets (expire k s n db) = zsets db"
  "zsets (hset k fs db) = zsets db"
  "zsets (incr k db) = zsets db"
  "zsets (sadd k v db) = zsets db"
  "zsets (lpush k v db) = zsets db"
  "zsets (increment_rate_limit L e uid db) = zsets db"
  by (simp_all add: expire_def hset_def incr_def sadd_def lpush_def increment_rate_limit_def Let_def)

lemma get_job_data_lists_update [simp]:
  "get_job_data L (db\<lparr>lists := x\<rparr>) jid = get_job_data L db jid"
  by (simp add: get_job_data_def hget_def)

lemma enqueue_job_now:
  assumes "enqueue_job L e uid jtype pl prio 0 m = ((True, msg, Some jid), m')"
  shows "lists (redis m') =
           AList.update (queue_keys prio) (jid # table_get (lists (redis m)) (queue_keys prio))
             (lists (redis m))"
    and "zsets (redis m') = zsets (redis m)"
    and "get_job_data L (redis m') k = (if k = jid then Inr None else get_job_data L (redis m) k)"
  using assms
  by (auto simp: enqueue_job_def Let_def lpush_def get_job_data_def hget_def hset_def
        update_conv' parse_dumps_job split: prod.splits if_splits)

lemma empty_lists:
  "get_total_queue_size db = 0 \<Longrightarrow> table_get (lists db) (queue_keys q) = []"
  by (cases q) (simp_all add: get_total_queue_size_def llen_def zcard_def del: of_nat_add)

lemma empty_zsets:
  "get_total_queue_size db = 0 \<Longrightarrow> table_get (zsets db) (delayed_key q) = []"
  by (cases q) (simp_all add: get_total_queue_size_def llen_def zcard_def del: of_nat_add)

lemma promote_nothing:
  "table_get (zsets db) (delayed_key p) = [] \<Longrightarrow> promote p now db = db"
  by (simp add: promote_def zrangebyscore_def)

lemma process_delayed_jobs_nothing:
  "(\<And>q. table_get (zsets db) (delayed_key q) = []) \<Longrightarrow> process_delayed_jobs e db = db"
  by (simp add: process_delayed_jobs_def promote_nothing)

lemma queue_keys_eq [simp]: "(queue_keys p = queue_keys q) = (p = q)"
  by (cases p; cases q; simp)

lemma dequeue_from_empty:
  "table_get (lists db) (queue_keys q) = [] \<Longrightarrow>
   dequeue_from L e (q # ps) db = dequeue_from L e ps db"
  by (simp add: brpop_def)

lemma dequeue_from_unreadable_tail:
  assumes "table_get (lists db) (queue_keys q) \<noteq> []"
    and "get_job_data L db (last (table_get (lists db) (queue_keys q))) = Inr None"
  shows "dequeue_from L e (q # ps) db =
     dequeue_from L e ps
       (db\<lparr>lists := AList.update (queue_keys q) (butlast (table_get (lists db) (queue_keys q)))
          (lists db)\<rparr>)"
proof -
  define y where "y = last (table_get (lists db) (queue_keys q))"
  define zs where "zs = butlast (table_get (lists db) (queue_keys q))"
  have b: "brpop (queue_keys q) db =
      (Some y, db\<lparr>lists := AList.update (queue_keys q) zs (lists db)\<rparr>)"
    using assms(1) unfolding brpop_def y_def zs_def
    by (cases "table_get (lists db) (queue_keys q)") simp_all
  have g: "get_job_data L db y = Inr None"
    using assms(2) by (simp add: y_def)
  have "dequeue_from L e (q # ps) db =
      dequeue_from L e ps (db\<lparr>lists := AList.update (queue_keys q) zs (lists db)\<rparr>)"
    by (simp add: b g)
  then show ?thesis by (simp only: zs_def)
qed

lemma redis_dequeue_job:
  "redis (snd (dequeue_job L e m)) =
     snd (dequeue_from L e [URGENT, HIGH, NORMAL, LOW] (process_delayed_jobs e (redis m)))"
  by (simp add: dequeue_job_def split: prod.splits)

text \<open>
  C6 (amended). Two jobs are enqueued without delay at the same priority, \<open>a\<close> first and
  \<open>b\<close> second, while nothing else is queued. \<^verbatim>\<open>enqueue_job\<close> pushes at the head of the list
  and \<^verbatim>\<open>dequeue_job\<close> pops at its tail, so the next \<^verbatim>\<open>dequeue_job\<close> takes \<open>a\<close>, the job
  enqueued first, and leaves \<open>b\<close>: within a priority the order is first in, first out.
\<close>

theorem same_priority_is_first_in_first_out:
  assumes "get_total_queue_size (redis m) = 0"
    and "enqueue_job L e1 uid1 jtype1 pl1 p 0 m = ((True, msg1, Some a), m1)"
    and "enqueue_job L e2 uid2 jtype2 pl2 p 0 m1 = ((True, msg2, Some b), m2)"
  shows "table_get (lists (redis m2)) (queue_keys p) = [b, a] \<and>
         table_get (lists (redis (snd (dequeue_job L e3 m2)))) (queue_keys p) = [b]"
proof -
  note first = enqueue_job_now [OF assms(2)]
  note second = enqueue_job_now [OF assms(3)]
  have l0: "\<And>q. table_get (lists (redis m)) (queue_keys q) = []"
    using empty_lists [OF assms(1)] .
  have z2: "\<And>q. table_get (zsets (redis m2)) (delayed_key q) = []"
    using empty_zsets [OF assms(1)] by (simp add: first(2) second(2))
  have l2: "\<And>q. table_get (lists (redis m2)) (queue_keys q) = (if q = p then [b, a] else [])"
    by (simp add: first(1) second(1) l0)
  have ra: "get_job_data L (redis m2) a = Inr None"
    by (simp add: first(3) second(3))
  have "table_get (lists (snd (dequeue_from L e3 [URGENT, HIGH, NORMAL, LOW] (redis m2))))
          (queue_keys p) = [b]"
    by (cases p)
      (simp_all add: l2 ra dequeue_from_empty dequeue_from_unreadable_tail
         del: dequeue_from.simps(2) queue_keys.simps)
  then show ?thesis
    using l2 [of p] by (simp add: redis_dequeue_job process_delayed_jobs_nothing [OF z2])
qed

lemma admitted_second:
  "fst (enqueue_job python (call_at 1001 ''B'') ''u1'' ''gen'' (JObj []) NORMAL 0 (one_job NORMAL 0))
     = (True, ''Job queued successfully'', Some ''B'')"
  by (simp add: enqueue_eval)

theorem same_priority_is_first_in_first_out_witness:
  "get_total_queue_size (redis (new_manager empty_db 1000)) = 0 \<and>
   enqueue_job python (call_at 1000 ''A'') ''u1'' ''gen'' (JObj []) NORMAL 0
       (new_manager empty_db 1000)
     = ((True, ''Job queued successfully'', Some ''A''), one_job NORMAL 0) \<and>
   enqueue_job python (call_at 1001 ''B'') ''u1'' ''gen'' (JObj []) NORMAL 0 (one_job NORMAL 0)
     = ((True, ''Job queued successfully'', Some ''B''), two_jobs NORMAL NORMAL) \<and>
   table_get (lists (redis (two_jobs NORMAL NORMAL))) (queue_keys NORMAL) = [''B'', ''A''] \<and>
   table_get (lists (redis (snd (dequeue_job python (call_at 1002 ''C'') (two_jobs NORMAL NORMAL)))))
     (queue_keys NORMAL) = [''B'']"
proof -
  have h0: "get_total_queue_size (redis (new_manager empty_db 1000)) = 0"
    by (simp add: get_total_queue_size_def new_manager_def redis_ops delayed_key_def)
  have h1: "enqueue_job python (call_at 1000 ''A'') ''u1'' ''gen'' (JObj []) NORMAL 0
       (new_manager empty_db 1000)
     = ((True, ''Job queued successfully'', Some ''A''), one_job NORMAL 0)"
    using admitted_empty by (simp add: one_job_def prod_eq_iff)
  have h2: "enqueue_job python (call_at 1001 ''B'') ''u1'' ''gen'' (JObj []) NORMAL 0
       (one_job NORMAL 0)
     = ((True, ''Job queued successfully'', Some ''B''), two_jobs NORMAL NORMAL)"
    using admitted_second by (simp add: two_jobs_def prod_eq_iff)
  show ?thesis
    using h0 h1 h2 same_priority_is_first_in_first_out [OF h0 h1 h2, of "call_at 1002 ''C''"]
    by simp
qed

text \<open>
  C6 as stated fails: after \<open>A\<close> and then \<open>B\<close> at priority NORMAL, the list is
  \<open>[B, A]\<close> and \<^verbatim>\<open>dequeue_job\<close> takes \<open>A\<close> from its tail; \<open>B\<close>, the job enqueued last, is
  not returned first (the call returns \<^verbatim>\<open>None\<close>) and stays in the list.
\<close>

lemma same_priority_lists:
  "lists (redis (two_jobs NORMAL NORMAL)) = [(''queue:normal'', [''B'', ''A''])]"
  by (simp add: enqueue_eval)

lemma same_priority_zsets: "zsets (redis (two_jobs NORMAL NORMAL)) = []"
  by (simp add: enqueue_eval)

theorem same_priority_oldest_popped_first:
  "lists (redis (two_jobs NORMAL NORMAL)) = [(''queue:normal'', [''B'', ''A''])] \<and>
   fst (dequeue_job python (call_at 1002 ''C'') (two_jobs NORMAL NORMAL)) = Inr None \<and>
   lists (redis (snd (dequeue_job python (call_at 1002 ''C'') (two_jobs NORMAL NORMAL))))
     = [(''queue:normal'', [''B''])]"
  by (simp add: dequeue_job_unreadable [OF all_unreadable_two_jobs] same_priority_lists
        same_priority_zsets process_delayed_jobs_def promote_def zrangebyscore_def brpop_def
        table_get_def delayed_key_def)

end
